theory Spec2Isabelle
  imports Complex_Main
begin

section \<open>The TF1 plugin of streamlink: URL matcher and channel resolution\<close>

text \<open>
  The development embeds \<^verbatim>\<open>src/streamlink/plugins/tf1.py\<close>. A Python string is a
  list of characters of a type \<open>'c\<close> that the matcher and the channel resolution
  leave open (a code point, for one). The pattern is a \<^verbatim>\<open>str\<close> pattern compiled
  without \<^verbatim>\<open>re.ASCII\<close>, so its \<^verbatim>\<open>\w\<close> follows the Unicode tables, as
  \<^verbatim>\<open>str.upper\<close> does: both tables are parameters, together with the embedding of
  the characters that the source writes literally.
\<close>

subsection \<open>Exceptions\<close>

datatype exn =
    AttributeError string
  | KeyError string
  | TypeError
  | ValueError
  | OverflowError
  | JSONDecodeError
  | PluginError string
  | TransportError string

subsection \<open>Characters\<close>

record 'c chartable =
  of_ascii :: "char \<Rightarrow> 'c"
  is_word :: "'c \<Rightarrow> bool"
  to_upper :: "'c list \<Rightarrow> 'c list"

definition chars_of :: "'c chartable \<Rightarrow> string \<Rightarrow> 'c list" where
  \<comment> \<open>a string literal of the source\<close>
  "chars_of T s = map (of_ascii T) s"

subsection \<open>The pattern of the plugin matcher\<close>

text \<open>
  \<^verbatim>\<open>re.compile(r"""https?://(?:www\.)?(?:tf1\.fr/(?:(?P<live>[\w-]+)/direct/?|stream/(?P<stream>[\w-]+))|(?P<lci>tf1info|lci)\.fr/direct/?)""", re.VERBOSE)\<close>,
  applied with \<^verbatim>\<open>match\<close> (anchored at the start only). The matcher is the
  backtracking one of \<^verbatim>\<open>re\<close>, in continuation style: every piece takes the rest
  of the input and the matcher of what follows; a greedy piece tries its longest
  match first and gives characters back while the continuation fails.
\<close>

record 'c match_groups =
  live :: "'c list option"
  stream :: "'c list option"
  lci :: "'c list option"

definition slug_char :: "'c chartable \<Rightarrow> 'c \<Rightarrow> bool" where
  \<comment> \<open>\<^verbatim>\<open>[\w-]\<close>\<close>
  "slug_char T c = (is_word T c \<or> c = of_ascii T (CHR ''-''))"

definition lit :: "'c list \<Rightarrow> 'c list \<Rightarrow> ('c list \<Rightarrow> 'a option) \<Rightarrow> 'a option" where
  \<comment> \<open>a literal piece\<close>
  "lit p s k = (if take (length p) s = p then k (drop (length p) s) else None)"

definition opt_lit :: "'c list \<Rightarrow> 'c list \<Rightarrow> ('c list \<Rightarrow> 'a option) \<Rightarrow> 'a option" where
  \<comment> \<open>a greedy optional literal, \<^verbatim>\<open>p?\<close>\<close>
  "opt_lit p s k = (case lit p s k of Some r \<Rightarrow> Some r | None \<Rightarrow> k s)"

fun first_some :: "'a option list \<Rightarrow> 'a option" where
  "first_some [] = None"
| "first_some (Some r # xs) = Some r"
| "first_some (None # xs) = first_some xs"

definition slug_plus :: "'c chartable \<Rightarrow> 'c list \<Rightarrow> ('c list \<Rightarrow> 'c list \<Rightarrow> 'a option) \<Rightarrow> 'a option" where
  \<comment> \<open>the greedy \<^verbatim>\<open>[\w-]+\<close> as a capturing group: the longest run first, then
      shorter ones down to one character; the continuation gets the captured text\<close>
  "slug_plus T s k =
     first_some (map (\<lambda>n. k (take n s) (drop n s))
                     (rev [1 ..< Suc (length (takeWhile (slug_char T) s))]))"

definition live_alt :: "'c chartable \<Rightarrow> 'c list \<Rightarrow> 'c match_groups option" where
  \<comment> \<open>\<^verbatim>\<open>(?P<live>[\w-]+)/direct/?\<close>\<close>
  "live_alt T s =
     slug_plus T s (\<lambda>g r. lit (chars_of T ''/direct'') r (\<lambda>r'. opt_lit (chars_of T ''/'') r'
       (\<lambda>_. Some \<lparr>live = Some g, stream = None, lci = None\<rparr>)))"

definition stream_alt :: "'c chartable \<Rightarrow> 'c list \<Rightarrow> 'c match_groups option" where
  \<comment> \<open>\<^verbatim>\<open>stream/(?P<stream>[\w-]+)\<close>\<close>
  "stream_alt T s =
     lit (chars_of T ''stream/'') s (\<lambda>r. slug_plus T r
       (\<lambda>g _. Some \<lparr>live = None, stream = Some g, lci = None\<rparr>))"

definition tf1_alt :: "'c chartable \<Rightarrow> 'c list \<Rightarrow> 'c match_groups option" where
  \<comment> \<open>\<^verbatim>\<open>tf1\.fr/(?: ... | ... )\<close>\<close>
  "tf1_alt T s =
     lit (chars_of T ''tf1.fr/'') s (\<lambda>r.
       (case live_alt T r of Some m \<Rightarrow> Some m | None \<Rightarrow> stream_alt T r))"

definition lci_tail :: "'c chartable \<Rightarrow> 'c list \<Rightarrow> 'c list \<Rightarrow> 'c match_groups option" where
  \<comment> \<open>\<^verbatim>\<open>\.fr/direct/?\<close> after the group \<^verbatim>\<open>lci\<close> has captured \<open>g\<close>\<close>
  "lci_tail T g s =
     lit (chars_of T ''.fr/direct'') s (\<lambda>r. opt_lit (chars_of T ''/'') r
       (\<lambda>_. Some \<lparr>live = None, stream = None, lci = Some g\<rparr>))"

definition lci_alt :: "'c chartable \<Rightarrow> 'c list \<Rightarrow> 'c match_groups option" where
  \<comment> \<open>\<^verbatim>\<open>(?P<lci>tf1info|lci)\.fr/direct/?\<close>\<close>
  "lci_alt T s =
     (case lit (chars_of T ''tf1info'') s (lci_tail T (chars_of T ''tf1info'')) of
        Some m \<Rightarrow> Some m
      | None \<Rightarrow> lit (chars_of T ''lci'') s (lci_tail T (chars_of T ''lci'')))"

definition site_alt :: "'c chartable \<Rightarrow> 'c list \<Rightarrow> 'c match_groups option" where
  "site_alt T s = (case tf1_alt T s of Some m \<Rightarrow> Some m | None \<Rightarrow> lci_alt T s)"

definition tf1_match :: "'c chartable \<Rightarrow> 'c list \<Rightarrow> 'c match_groups option" where
  \<comment> \<open>the whole pattern; \<open>None\<close> is \<^verbatim>\<open>re.match\<close> returning \<^verbatim>\<open>None\<close>\<close>
  "tf1_match T u =
     lit (chars_of T ''http'') u (\<lambda>r. opt_lit (chars_of T ''s'') r (\<lambda>r. lit (chars_of T ''://'') r
       (\<lambda>r. opt_lit (chars_of T ''www.'') r (site_alt T))))"

subsection \<open>Channel resolution\<close>

definition truthy_group :: "'c list option \<Rightarrow> bool" where
  \<comment> \<open>the truth value of \<^verbatim>\<open>self.match[name]\<close>: \<^verbatim>\<open>None\<close> and the empty string
      are false\<close>
  "truthy_group g = (case g of None \<Rightarrow> False | Some s \<Rightarrow> s \<noteq> [])"

definition group_text :: "'c list option \<Rightarrow> 'c list" where
  "group_text g = (case g of None \<Rightarrow> [] | Some s \<Rightarrow> s)"

definition get_channel :: "'c chartable \<Rightarrow> 'c match_groups \<Rightarrow> exn + ('c list \<times> 'c list)" where
  \<comment> \<open>\<^verbatim>\<open>TF1._get_channel\<close>; the result is \<^verbatim>\<open>(channel, channel_id)\<close>\<close>
  "get_channel T m =
     (if truthy_group (live m) then
        (let channel = group_text (live m) in Inr (channel, chars_of T ''L_'' @ to_upper T channel))
      else if truthy_group (lci m) then
        Inr (chars_of T ''LCI'', chars_of T ''L_LCI'')
      else if truthy_group (stream m) then
        (let channel = group_text (stream m) in Inr (channel, chars_of T ''L_FAST_v2l-'' @ channel))
      else Inl (PluginError ''Invalid channel''))"

subsection \<open>Two fragments of the character tables\<close>

text \<open>
  Examples need concrete tables. \<open>codepoints\<close> takes characters as code points and
  knows the ASCII letters, digits and underscore, the letters U+00E9, U+00C9 and
  U+00DF (which \<^verbatim>\<open>str.upper\<close> turns into two characters) and the ideograph U+4E2D;
  \<open>byte_chars\<close> is the same fragment on Isabelle's characters, without the ideograph.
\<close>

definition ascii_word :: "int \<Rightarrow> bool" where
  "ascii_word n = ((65 \<le> n \<and> n \<le> 90) \<or> (97 \<le> n \<and> n \<le> 122) \<or> (48 \<le> n \<and> n \<le> 57) \<or> n = 95)"

definition upper_point :: "int \<Rightarrow> int list" where
  "upper_point n =
     (if (97 \<le> n \<and> n \<le> 122) \<or> n = 233 then [n - 32]
      else if n = 223 then [83, 83]
      else [n])"

definition codepoints :: "int chartable" where
  "codepoints =
     \<lparr>of_ascii = of_char,
      is_word = (\<lambda>n. ascii_word n \<or> n = 233 \<or> n = 201 \<or> n = 223 \<or> n = 20013),
      to_upper = (\<lambda>s. concat (map upper_point s))\<rparr>"

definition byte_chars :: "char chartable" where
  "byte_chars =
     \<lparr>of_ascii = (\<lambda>c. c),
      is_word = (\<lambda>c. ascii_word (of_char c) \<or> of_char c = (233::int) \<or> of_char c = (201::int)
                   \<or> of_char c = (223::int)),
      to_upper = (\<lambda>s. map (\<lambda>n. char_of (nat n)) (concat (map (\<lambda>c. upper_point (of_char c)) s)))\<rparr>"

section \<open>Values, requests and the plugin instance\<close>

subsection \<open>Python values\<close>

datatype pyfloat = Finite real | PosInf | NegInf | NaN

datatype pyval =
    PNone
  | PBool bool
  | PInt int
  | PFloat pyfloat
  | PStr string
  | PList "pyval list"
  | PTuple "pyval list"
  | PDict "(string \<times> pyval) list"

definition py_subscript :: "pyval \<Rightarrow> string \<Rightarrow> exn + pyval" where
  \<comment> \<open>\<^verbatim>\<open>v[k]\<close> for a string key \<open>k\<close>\<close>
  "py_subscript v k =
     (case v of
        PDict d \<Rightarrow> (case map_of d k of Some x \<Rightarrow> Inr x | None \<Rightarrow> Inl (KeyError k))
      | _ \<Rightarrow> Inl TypeError)"

definition py_int :: "(string \<Rightarrow> int option) \<Rightarrow> pyval \<Rightarrow> exn + int" where
  \<comment> \<open>the builtin \<^verbatim>\<open>int(v)\<close>; the parser of decimal strings is the argument\<close>
  "py_int parse v =
     (case v of
        PInt i \<Rightarrow> Inr i
      | PBool b \<Rightarrow> Inr (if b then 1 else 0)
      | PFloat f \<Rightarrow>
          (case f of
             Finite r \<Rightarrow> Inr (if 0 \<le> r then \<lfloor>r\<rfloor> else \<lceil>r\<rceil>)
           | NaN \<Rightarrow> Inl ValueError
           | _ \<Rightarrow> Inl OverflowError)
      | PStr s \<Rightarrow> (case parse s of Some i \<Rightarrow> Inr i | None \<Rightarrow> Inl ValueError)
      | _ \<Rightarrow> Inl TypeError)"

definition py_eq_int :: "pyval \<Rightarrow> int \<Rightarrow> bool" where
  \<comment> \<open>\<^verbatim>\<open>v == n\<close> for an integer literal \<open>n\<close>\<close>
  "py_eq_int v n =
     (case v of
        PInt i \<Rightarrow> i = n
      | PBool b \<Rightarrow> (if b then 1 else 0) = n
      | PFloat f \<Rightarrow> (case f of Finite r \<Rightarrow> r = of_int n | _ \<Rightarrow> False)
      | _ \<Rightarrow> False)"

definition is_int :: "pyval \<Rightarrow> bool" where
  \<comment> \<open>\<^verbatim>\<open>isinstance(v, int)\<close>: \<^verbatim>\<open>bool\<close> is a subclass of \<^verbatim>\<open>int\<close>\<close>
  "is_int v = (case v of PInt _ \<Rightarrow> True | PBool _ \<Rightarrow> True | _ \<Rightarrow> False)"

definition option_val :: "string option \<Rightarrow> pyval" where
  "option_val v = (case v of None \<Rightarrow> PNone | Some s \<Rightarrow> PStr s)"

subsection \<open>HTTP requests and responses\<close>

datatype http_method = GET | POST

datatype query = NoQuery | QueryDict "(string \<times> string) list" | QueryString string

record request =
  req_method :: http_method
  req_url :: string
  req_params :: query
  req_data :: "(string \<times> pyval) list"
  req_headers :: "(string \<times> string) list"

record response =
  status_code :: int
  res_url :: string
  body_json :: "pyval option"

definition res_json :: "response \<Rightarrow> exn + pyval" where
  \<comment> \<open>\<^verbatim>\<open>res.json()\<close>; \<open>body_json\<close> is the body parsed as JSON, \<open>None\<close> when the
      body is not JSON\<close>
  "res_json res = (case body_json res of None \<Rightarrow> Inl JSONDecodeError | Some j \<Rightarrow> Inr j)"

subsection \<open>The plugin instance and its state\<close>

text \<open>
  What the instance is given from outside: its URL and options, the remote end of the
  HTTP session (\<open>server\<close> answers a request, given the requests issued before it,
  with a response, or the transport fails with an exception), the tables of
  \<^verbatim>\<open>\w\<close> and \<^verbatim>\<open>str.upper\<close>, and the library functions
  \<^verbatim>\<open>urlparse(u).query\<close>, \<^verbatim>\<open>int\<close> on strings, \<^verbatim>\<open>validate.url()\<close> and
  \<^verbatim>\<open>useragents.IPHONE\<close>. From here on a string is an Isabelle string, one
  \<open>char\<close> for each character.
  The body of class \<^verbatim>\<open>TF1\<close> binds \<^verbatim>\<open>_URL_API\<close>, \<^verbatim>\<open>_TF1_AUTH_URL\<close>,
  \<^verbatim>\<open>_GIGYA_TOKEN_URL\<close>, \<^verbatim>\<open>gigya_api_key\<close> and the four \<^verbatim>\<open>user_\<close> fields;
  it binds neither \<^verbatim>\<open>session_url\<close> nor \<^verbatim>\<open>auth_url\<close>, which \<^verbatim>\<open>login\<close> reads
  from \<^verbatim>\<open>self\<close>. Their lookup falls through to the base class \<^verbatim>\<open>Plugin\<close>:
  \<open>session_url\<close> and \<open>auth_url\<close> are what the lookup finds, \<open>None\<close> when it
  raises \<^verbatim>\<open>AttributeError\<close>.
\<close>

record plugin_env =
  url :: string
  username :: "string option"
  password :: "string option"
  session_url :: "string option"
  auth_url :: "string option"
  server :: "request list \<Rightarrow> request \<Rightarrow> exn + response"
  is_word_char :: "char \<Rightarrow> bool"
  upper_str :: "string \<Rightarrow> string"
  url_query :: "string \<Rightarrow> string"
  int_of_str :: "string \<Rightarrow> int option"
  valid_url :: "string \<Rightarrow> bool"
  useragent_iphone :: string

datatype level = Debug | Error

record tf1_state =
  user_signature :: pyval
  user_uid :: pyval
  user_timestamp :: pyval
  user_token :: string
  requests :: "request list"
  logged :: "(level \<times> string) list"

definition init_state :: tf1_state where
  "init_state =
     \<lparr>user_signature = PStr [], user_uid = PStr [], user_timestamp = PStr [],
      user_token = [], requests = [], logged = []\<rparr>"

definition log_msg :: "level \<Rightarrow> string \<Rightarrow> tf1_state \<Rightarrow> tf1_state" where
  "log_msg l msg st = st\<lparr>logged := logged st @ [(l, msg)]\<rparr>"

definition URL_API :: "string \<Rightarrow> string" where
  \<comment> \<open>\<^verbatim>\<open>self._URL_API.format(channel_id=channel_id)\<close>\<close>
  "URL_API channel_id = ''https://mediainfo.tf1.fr/mediainfocombo/'' @ channel_id"

definition TF1_AUTH_URL :: string where
  "TF1_AUTH_URL = ''https://compte.tf1.fr/accounts.login''"

definition GIGYA_TOKEN_URL :: string where
  "GIGYA_TOKEN_URL = ''https://www.tf1.fr/token/gigya/web''"

definition gigya_api_key :: string where
  "gigya_api_key = ''3_hWgJdARhz_7l1oOp3a8BDLoR9cuWZpUaKG4aqF7gum9_iK3uTZ2VlDBl8ANf8FVk''"

definition env_chars :: "plugin_env \<Rightarrow> char chartable" where
  "env_chars env = \<lparr>of_ascii = (\<lambda>c. c), is_word = is_word_char env, to_upper = upper_str env\<rparr>"

definition http_error :: exn where
  "http_error = PluginError ''Unable to open URL''"

definition http :: "plugin_env \<Rightarrow> request list \<Rightarrow> request \<Rightarrow> exn + response" where
  \<comment> \<open>Modelled from the spec: the HTTP session (\<^verbatim>\<open>streamlink.session.http\<close>) is not
      among the sources. The spec has every call "issued and awaited sequentially",
      one that "either completes or fails outright". The session checks the status of
      each response unless the caller passes \<^verbatim>\<open>raise_for_status=False\<close> or
      \<^verbatim>\<open>acceptable_status\<close>, which \<^verbatim>\<open>tf1.py\<close> never does: a response with a 4xx or
      5xx status is not handed back, the call raises \<^verbatim>\<open>PluginError\<close>.\<close>
  "http env earlier rq =
     (case server env earlier rq of
        Inl e \<Rightarrow> Inl e
      | Inr res \<Rightarrow>
          if 400 \<le> status_code res \<and> status_code res < 600 then Inl http_error
          else Inr res)"

definition http_request :: "plugin_env \<Rightarrow> request \<Rightarrow> tf1_state \<Rightarrow> (exn + response) \<times> tf1_state" where
  \<comment> \<open>\<^verbatim>\<open>self.session.http.get\<close> and \<^verbatim>\<open>post\<close>: the request joins the trace and the
      session answers it\<close>
  "http_request env rq st = (http env (requests st) rq, st\<lparr>requests := requests st @ [rq]\<rparr>)"

section \<open>Response schemas\<close>

text \<open>
  Modelled from the spec: \<^verbatim>\<open>streamlink.plugin.api.validate\<close> is not among the
  sources, so the meaning of the two schemas written in \<^verbatim>\<open>tf1.py\<close> follows the
  specification: the token response is "validated against a fixed schema requiring
  four string/integer fields: token, refresh_token, ttl (integer), type (string)";
  the delivery is "validated against exactly one of two shapes:
  {code:200, format:"hls", url: <valid URL>} or {code: <int>, error: <string>};
  any other shape is a schema-validation failure". The alternatives of
  \<^verbatim>\<open>validate.any\<close> are tried in the order the source lists them, a literal is
  compared with \<^verbatim>\<open>==\<close>, and a key the schema does not name is ignored.
\<close>

definition validation_error :: exn where
  "validation_error = PluginError ''Unable to validate response text''"

record token_reply =
  token :: string
  refresh_token :: string
  ttl :: pyval
  token_type :: string

definition token_schema :: "pyval option \<Rightarrow> exn + token_reply" where
  \<comment> \<open>Modelled from the spec: the schema of the token exchange,
      \<^verbatim>\<open>validate.Schema(validate.parse_json(), {"token": validate.text,
      "refresh_token": validate.text, "ttl": validate.integer, "type": validate.text})\<close>\<close>
  "token_schema body =
     (case body of
        Some (PDict d) \<Rightarrow>
          (case (map_of d ''token'', map_of d ''refresh_token'', map_of d ''ttl'', map_of d ''type'') of
             (Some (PStr t), Some (PStr r), Some l, Some (PStr y)) \<Rightarrow>
               if is_int l
               then Inr \<lparr>token = t, refresh_token = r, ttl = l, token_type = y\<rparr>
               else Inl validation_error
           | _ \<Rightarrow> Inl validation_error)
      | _ \<Rightarrow> Inl validation_error)"

definition delivery_success :: "(string \<Rightarrow> bool) \<Rightarrow> pyval \<Rightarrow> (pyval \<times> string) option" where
  \<comment> \<open>Modelled from the spec: \<^verbatim>\<open>validate.all({"code": 200, "format": "hls",
      "url": validate.url()}, validate.union_get("code", "url"))\<close>\<close>
  "delivery_success valid v =
     (case v of
        PDict d \<Rightarrow>
          (case (map_of d ''code'', map_of d ''format'', map_of d ''url'') of
             (Some c, Some (PStr f), Some (PStr u)) \<Rightarrow>
               if py_eq_int c 200 \<and> f = ''hls'' \<and> valid u then Some (c, u) else None
           | _ \<Rightarrow> None)
      | _ \<Rightarrow> None)"

definition delivery_failure :: "pyval \<Rightarrow> (pyval \<times> string) option" where
  \<comment> \<open>Modelled from the spec: \<^verbatim>\<open>validate.all({"code": int, "error": str},
      validate.union_get("code", "error"))\<close>\<close>
  "delivery_failure v =
     (case v of
        PDict d \<Rightarrow>
          (case (map_of d ''code'', map_of d ''error'') of
             (Some c, Some (PStr e)) \<Rightarrow> if is_int c then Some (c, e) else None
           | _ \<Rightarrow> None)
      | _ \<Rightarrow> None)"

definition media_schema :: "(string \<Rightarrow> bool) \<Rightarrow> pyval option \<Rightarrow> exn + (pyval \<times> string)" where
  \<comment> \<open>Modelled from the spec: the schema of the media-info call,
      \<^verbatim>\<open>validate.Schema(validate.parse_json(), {"delivery": validate.any(..., ...)},
      validate.get("delivery"))\<close>\<close>
  "media_schema valid body =
     (case body of
        Some (PDict b) \<Rightarrow>
          (case map_of b ''delivery'' of
             None \<Rightarrow> Inl validation_error
           | Some dl \<Rightarrow>
               (case delivery_success valid dl of
                  Some r \<Rightarrow> Inr r
                | None \<Rightarrow>
                    (case delivery_failure dl of
                       Some r \<Rightarrow> Inr r
                     | None \<Rightarrow> Inl validation_error)))
      | _ \<Rightarrow> Inl validation_error)"

section \<open>The plugin\<close>

definition media_request :: "plugin_env \<Rightarrow> string \<Rightarrow> string \<Rightarrow> request" where
  "media_request env channel_id tok =
     \<lparr>req_method = GET, req_url = URL_API channel_id,
      req_params = QueryDict [(''context'', ''MYTF1''), (''pver'', ''5015000'')],
      req_data = [],
      req_headers = [(''User-Agent'', useragent_iphone env),
                     (''authorization'', ''Bearer '' @ tok)]\<rparr>"

definition api_call :: "plugin_env \<Rightarrow> string \<Rightarrow> tf1_state \<Rightarrow> (exn + (pyval \<times> string)) \<times> tf1_state" where
  \<comment> \<open>\<^verbatim>\<open>TF1._api_call\<close>\<close>
  "api_call env channel_id st =
     (case http_request env (media_request env channel_id (user_token st)) st of
        (Inl e, st') \<Rightarrow> (Inl e, st')
      | (Inr res, st') \<Rightarrow> (media_schema (valid_url env) (body_json res), st'))"

definition consent_id_list :: "string list" where
  "consent_id_list =
     [''1'', ''2'', ''3'', ''4'', ''10001'', ''10003'', ''10005'', ''10007'', ''10013'',
      ''10015'', ''10017'', ''10019'', ''10009'', ''10011'', ''13002'', ''13001'', ''10004'',
      ''10014'', ''10016'', ''10018'', ''10020'', ''10010'', ''10012'', ''10006'', ''10008'']"

definition consent_ids :: pyval where
  \<comment> \<open>\<^verbatim>\<open>consent_ids = [ "1", ..., "10008"],\<close>: the comma that ends the line makes
      the value a tuple of one element, the list\<close>
  "consent_ids = PTuple [PList (map PStr consent_id_list)]"

definition token_request :: "plugin_env \<Rightarrow> tf1_state \<Rightarrow> pyval \<Rightarrow> request" where
  "token_request env st cids =
     \<lparr>req_method = POST, req_url = GIGYA_TOKEN_URL, req_params = NoQuery,
      req_data = [(''uid'', user_uid st), (''signature'', user_signature st),
                  (''timestamp'', user_timestamp st), (''consentIds'', cids)],
      req_headers = [(''Referer'', url env)]\<rparr>"

definition assertion_field :: "response \<Rightarrow> string \<Rightarrow> exn + pyval" where
  \<comment> \<open>\<^verbatim>\<open>res.json()[k]\<close>\<close>
  "assertion_field res k =
     (case res_json res of Inl e \<Rightarrow> Inl e | Inr j \<Rightarrow> py_subscript j k)"

definition assertion_timestamp :: "plugin_env \<Rightarrow> response \<Rightarrow> exn + int" where
  \<comment> \<open>\<^verbatim>\<open>int(res.json()['timestamp'])\<close>\<close>
  "assertion_timestamp env res =
     (case assertion_field res ''timestamp'' of
        Inl e \<Rightarrow> Inl e
      | Inr t \<Rightarrow> py_int (int_of_str env) t)"

definition auth_check :: "plugin_env \<Rightarrow> response \<Rightarrow> tf1_state \<Rightarrow> (exn + bool) \<times> tf1_state" where
  \<comment> \<open>the local function \<^verbatim>\<open>auth_check\<close> of \<^verbatim>\<open>TF1.login\<close>\<close>
  "auth_check env res st =
     (if status_code res = 200 then
        (case assertion_field res ''userSignature'' of
           Inl e \<Rightarrow> (Inl e, st)
         | Inr sg \<Rightarrow>
             (let st1 = st\<lparr>user_signature := sg\<rparr> in
              case assertion_field res ''UID'' of
                Inl e \<Rightarrow> (Inl e, st1)
              | Inr uid \<Rightarrow>
                  (let st2 = st1\<lparr>user_uid := uid\<rparr> in
                   case assertion_timestamp env res of
                     Inl e \<Rightarrow> (Inl e, st2)
                   | Inr ts \<Rightarrow>
                       (let st3 = st2\<lparr>user_timestamp := PInt ts\<rparr> in
                        case http_request env (token_request env st3 consent_ids) st3 of
                          (Inl e, st4) \<Rightarrow> (Inl e, st4)
                        | (Inr r, st4) \<Rightarrow>
                            (case token_schema (body_json r) of
                               Inl e \<Rightarrow> (Inl e, st4)
                             | Inr tok \<Rightarrow> (Inr True, st4\<lparr>user_token := token tok\<rparr>))))))
      else (Inr False, st))"

definition session_request :: "string \<Rightarrow> string \<Rightarrow> request" where
  "session_request su ptrt_url =
     \<lparr>req_method = GET, req_url = su, req_params = QueryDict [(''ptrt'', ptrt_url)],
      req_data = [], req_headers = []\<rparr>"

definition login_request :: "plugin_env \<Rightarrow> string \<Rightarrow> response \<Rightarrow> request" where
  "login_request env au session_res =
     \<lparr>req_method = POST, req_url = au,
      req_params = QueryString (url_query env (res_url session_res)),
      req_data = [(''loginID'', option_val (username env)),
                  (''password'', option_val (password env)),
                  (''APIKey'', PStr gigya_api_key)],
      req_headers = [(''Referer'', url env)]\<rparr>"

definition login :: "plugin_env \<Rightarrow> string \<Rightarrow> tf1_state \<Rightarrow> (exn + bool) \<times> tf1_state" where
  \<comment> \<open>\<^verbatim>\<open>TF1.login\<close>\<close>
  "login env ptrt_url st =
     (case session_url env of
        None \<Rightarrow> (Inl (AttributeError ''session_url''), st)
      | Some su \<Rightarrow>
          (case http_request env (session_request su ptrt_url) st of
             (Inl e, st1) \<Rightarrow> (Inl e, st1)
           | (Inr session_res, st1) \<Rightarrow>
               (case auth_check env session_res st1 of
                  (Inl e, st2) \<Rightarrow> (Inl e, st2)
                | (Inr ok, st2) \<Rightarrow>
                    if ok then
                      (Inr True, log_msg Debug ''Already authenticated, skipping authentication'' st2)
                    else
                      (case auth_url env of
                         None \<Rightarrow> (Inl (AttributeError ''auth_url''), st2)
                       | Some au \<Rightarrow>
                           (case http_request env (login_request env au session_res) st2 of
                              (Inl e, st3) \<Rightarrow> (Inl e, st3)
                            | (Inr res, st3) \<Rightarrow> auth_check env res st3)))))"

datatype streams = NoStreams | ParsedPlaylist string

definition missing_credentials_msg :: string where
  "missing_credentials_msg =
     ''In order to access your content, TF1 requires an account you must login with, using --tf1-username and --tf1-password''"

definition not_authenticated_msg :: string where
  "not_authenticated_msg = ''Could not authenticate, check your username and password.''"

definition self_get_channel :: "plugin_env \<Rightarrow> exn + (string \<times> string)" where
  \<comment> \<open>\<^verbatim>\<open>self._get_channel()\<close>: \<^verbatim>\<open>self.match\<close> is the match of the pattern on
      \<^verbatim>\<open>self.url\<close>, and subscripting \<^verbatim>\<open>None\<close> raises\<close>
  "self_get_channel env =
     (case tf1_match (env_chars env) (url env) of
        None \<Rightarrow> Inl TypeError
      | Some m \<Rightarrow> get_channel (env_chars env) m)"

definition get_streams :: "plugin_env \<Rightarrow> tf1_state \<Rightarrow> (exn + streams) \<times> tf1_state" where
  \<comment> \<open>\<^verbatim>\<open>TF1._get_streams\<close>; \<open>NoStreams\<close> is the bare \<^verbatim>\<open>return\<close>,
      \<open>ParsedPlaylist data\<close> the call
      \<^verbatim>\<open>HLSStream.parse_variant_playlist(self.session, data)\<close>\<close>
  "get_streams env st =
     (if \<not> truthy_group (username env) then
        (Inr NoStreams, log_msg Error missing_credentials_msg st)
      else
        (case login env (url env) st of
           (Inl e, st1) \<Rightarrow> (Inl e, st1)
         | (Inr ok, st1) \<Rightarrow>
             if \<not> ok then (Inr NoStreams, log_msg Error not_authenticated_msg st1)
             else
               (case self_get_channel env of
                  Inl e \<Rightarrow> (Inl e, st1)
                | Inr (channel, channel_id) \<Rightarrow>
                    (let st2 = log_msg Debug (''Found channel '' @ channel @ '' ('' @ channel_id @ '')'') st1 in
                     case api_call env channel_id st2 of
                       (Inl e, st3) \<Rightarrow> (Inl e, st3)
                     | (Inr (code, data), st3) \<Rightarrow>
                         if \<not> py_eq_int code 200 then (Inr NoStreams, log_msg Error data st3)
                         else (Inr (ParsedPlaylist data), st3)))))"

subsection \<open>Scripted sessions\<close>

definition scripted :: "(exn + response) list \<Rightarrow> request list \<Rightarrow> request \<Rightarrow> exn + response" where
  \<comment> \<open>a remote end that answers the \<open>n\<close>-th request with the \<open>n\<close>-th entry of a
      script\<close>
  "scripted script earlier rq =
     (if length earlier < length script then script ! length earlier
      else Inl (TransportError ''no answer''))"

definition sample_env :: "string \<Rightarrow> string option \<Rightarrow> string option \<Rightarrow> (exn + response) list \<Rightarrow> plugin_env" where
  \<comment> \<open>an instance on a base class that provides both endpoints\<close>
  "sample_env u usr pwd script =
     \<lparr>url = u, username = usr, password = pwd,
      session_url = Some ''https://www.tf1.fr/session'',
      auth_url = Some TF1_AUTH_URL,
      server = scripted script,
      is_word_char = is_word byte_chars,
      upper_str = to_upper byte_chars,
      url_query = (\<lambda>_. []),
      int_of_str = (\<lambda>_. None),
      valid_url = (\<lambda>s. take 4 s = ''http''),
      useragent_iphone = ''iPhone''\<rparr>"

definition bare_env :: "string \<Rightarrow> string option \<Rightarrow> string option \<Rightarrow> (exn + response) list \<Rightarrow> plugin_env" where
  \<comment> \<open>an instance on a base class that provides neither \<^verbatim>\<open>session_url\<close> nor
      \<^verbatim>\<open>auth_url\<close>\<close>
  "bare_env u usr pwd script =
     (sample_env u usr pwd script)\<lparr>session_url := None, auth_url := None\<rparr>"

definition json_response :: "int \<Rightarrow> pyval \<Rightarrow> exn + response" where
  "json_response code j = Inr \<lparr>status_code = code, res_url = [], body_json = Some j\<rparr>"

definition assertion_body :: pyval where
  "assertion_body =
     PDict [(''userSignature'', PStr ''sig''), (''UID'', PStr ''uid''), (''timestamp'', PInt 1700000000)]"

definition token_body :: pyval where
  "token_body =
     PDict [(''token'', PStr ''tok''), (''refresh_token'', PStr ''ref''),
            (''ttl'', PInt 3600), (''type'', PStr ''Bearer'')]"

section \<open>Facts about the matcher\<close>

lemma first_some_SomeD: "first_some xs = Some r \<Longrightarrow> Some r \<in> set xs"
  by (induction xs rule: first_some.induct) auto

lemma slug_plus_SomeD:
  assumes "slug_plus T s k = Some r"
  shows "\<exists>n. 1 \<le> n \<and> n \<le> length s \<and> k (take n s) (drop n s) = Some r"
proof -
  from assms have "Some r \<in> set (map (\<lambda>n. k (take n s) (drop n s))
      (rev [1 ..< Suc (length (takeWhile (slug_char T) s))]))"
    unfolding slug_plus_def by (rule first_some_SomeD)
  then obtain n where n: "1 \<le> n" "n \<le> length (takeWhile (slug_char T) s)"
      and r: "k (take n s) (drop n s) = Some r"
    by auto
  have "length (takeWhile (slug_char T) s) \<le> length s"
    by (rule length_takeWhile_le)
  with n r show ?thesis by auto
qed

lemma lit_SomeD: "lit p s k = Some r \<Longrightarrow> k (drop (length p) s) = Some r"
  by (simp add: lit_def split: if_splits)

lemma opt_lit_SomeD: "opt_lit p s k = Some r \<Longrightarrow> k (drop (length p) s) = Some r \<or> k s = Some r"
  by (auto simp: opt_lit_def dest: lit_SomeD split: option.splits)

lemma live_alt_SomeD:
  assumes "live_alt T s = Some m"
  shows "\<exists>g. g \<noteq> [] \<and> m = \<lparr>live = Some g, stream = None, lci = None\<rparr>"
proof -
  from assms obtain n where n: "1 \<le> n" "n \<le> length s"
    and k: "lit (chars_of T ''/direct'') (drop n s) (\<lambda>r'. opt_lit (chars_of T ''/'') r'
       (\<lambda>_. Some \<lparr>live = Some (take n s), stream = None, lci = None\<rparr>)) = Some m"
    unfolding live_alt_def by (blast dest: slug_plus_SomeD)
  from k have "m = \<lparr>live = Some (take n s), stream = None, lci = None\<rparr>"
    by (auto dest!: lit_SomeD opt_lit_SomeD)
  moreover from n have "take n s \<noteq> []" by auto
  ultimately show ?thesis by blast
qed

lemma stream_alt_SomeD:
  assumes "stream_alt T s = Some m"
  shows "\<exists>g. g \<noteq> [] \<and> m = \<lparr>live = None, stream = Some g, lci = None\<rparr>"
proof -
  let ?r = "drop (length (chars_of T ''stream/'')) s"
  from assms have "slug_plus T ?r
       (\<lambda>g _. Some \<lparr>live = None, stream = Some g, lci = None\<rparr>) = Some m"
    unfolding stream_alt_def by (rule lit_SomeD)
  then obtain n where n: "1 \<le> n" "n \<le> length ?r"
    and m: "Some \<lparr>live = None, stream = Some (take n ?r), lci = None\<rparr> = Some m"
    by (blast dest: slug_plus_SomeD)
  from n have "take n ?r \<noteq> []" by auto
  with m show ?thesis by blast
qed

lemma lci_tail_SomeD:
  "lci_tail T g s = Some m \<Longrightarrow> m = \<lparr>live = None, stream = None, lci = Some g\<rparr>"
  unfolding lci_tail_def by (auto dest!: lit_SomeD opt_lit_SomeD)

lemma lci_alt_SomeD:
  assumes "lci_alt T s = Some m"
  shows "\<exists>g. g \<noteq> [] \<and> m = \<lparr>live = None, stream = None, lci = Some g\<rparr>"
proof -
  from assms have "lit (chars_of T ''tf1info'') s (lci_tail T (chars_of T ''tf1info'')) = Some m
      \<or> lit (chars_of T ''lci'') s (lci_tail T (chars_of T ''lci'')) = Some m"
    by (auto simp: lci_alt_def split: option.splits)
  then have "m = \<lparr>live = None, stream = None, lci = Some (chars_of T ''tf1info'')\<rparr>
      \<or> m = \<lparr>live = None, stream = None, lci = Some (chars_of T ''lci'')\<rparr>"
    by (auto dest!: lit_SomeD lci_tail_SomeD)
  moreover have "chars_of T ''tf1info'' \<noteq> []" and "chars_of T ''lci'' \<noteq> []"
    by (simp_all add: chars_of_def)
  ultimately show ?thesis by blast
qed

lemma site_alt_SomeD:
  assumes "site_alt T s = Some m"
  shows "\<exists>g. g \<noteq> [] \<and>
      (m = \<lparr>live = Some g, stream = None, lci = None\<rparr>
     \<or> m = \<lparr>live = None, stream = Some g, lci = None\<rparr>
     \<or> m = \<lparr>live = None, stream = None, lci = Some g\<rparr>)"
proof -
  from assms have "tf1_alt T s = Some m \<or> lci_alt T s = Some m"
    by (auto simp: site_alt_def split: option.splits)
  then show ?thesis
  proof
    assume "tf1_alt T s = Some m"
    then have "live_alt T (drop (length (chars_of T ''tf1.fr/'')) s) = Some m
        \<or> stream_alt T (drop (length (chars_of T ''tf1.fr/'')) s) = Some m"
      unfolding tf1_alt_def by (auto dest!: lit_SomeD split: option.splits)
    then show ?thesis by (blast dest: live_alt_SomeD stream_alt_SomeD)
  next
    assume "lci_alt T s = Some m"
    then show ?thesis by (blast dest: lci_alt_SomeD)
  qed
qed

lemma tf1_match_SomeD:
  assumes "tf1_match T u = Some m"
  shows "\<exists>g. g \<noteq> [] \<and>
      (m = \<lparr>live = Some g, stream = None, lci = None\<rparr>
     \<or> m = \<lparr>live = None, stream = Some g, lci = None\<rparr>
     \<or> m = \<lparr>live = None, stream = None, lci = Some g\<rparr>)"
proof -
  from assms obtain s where "site_alt T s = Some m"
    unfolding tf1_match_def by (auto dest!: lit_SomeD opt_lit_SomeD)
  then show ?thesis by (rule site_alt_SomeD)
qed

section \<open>Channel resolution on matched URLs\<close>

text \<open>
  C9. For every URL the pattern accepts, whatever the tables of \<^verbatim>\<open>\w\<close> and
  \<^verbatim>\<open>str.upper\<close>, exactly one of the groups \<open>live\<close>, \<open>stream\<close>, \<open>lci\<close> is
  populated (the two others are \<^verbatim>\<open>None\<close>, the populated one is a non-empty
  string), so \<^verbatim>\<open>_get_channel\<close> takes exactly one of its three derivations and never
  reaches the branch that raises "Invalid channel".
\<close>

theorem matched_url_one_scheme:
  assumes "tf1_match T u = Some m"
  shows "((truthy_group (live m) \<and> stream m = None \<and> lci m = None)
        \<or> (live m = None \<and> truthy_group (stream m) \<and> lci m = None)
        \<or> (live m = None \<and> stream m = None \<and> truthy_group (lci m)))
       \<and> (\<exists>channel channel_id. get_channel T m = Inr (channel, channel_id))"
proof -
  from assms obtain g where g: "g \<noteq> []"
    and m: "m = \<lparr>live = Some g, stream = None, lci = None\<rparr>
      \<or> m = \<lparr>live = None, stream = Some g, lci = None\<rparr>
      \<or> m = \<lparr>live = None, stream = None, lci = Some g\<rparr>"
    by (blast dest: tf1_match_SomeD)
  from m show ?thesis
  proof (elim disjE)
    assume "m = \<lparr>live = Some g, stream = None, lci = None\<rparr>"
    with g show ?thesis by (simp add: truthy_group_def get_channel_def Let_def)
  next
    assume "m = \<lparr>live = None, stream = Some g, lci = None\<rparr>"
    with g show ?thesis by (simp add: truthy_group_def get_channel_def Let_def)
  next
    assume "m = \<lparr>live = None, stream = None, lci = Some g\<rparr>"
    with g show ?thesis by (simp add: truthy_group_def get_channel_def Let_def)
  qed
qed

theorem matched_url_one_scheme_witness:
  "tf1_match codepoints (chars_of codepoints ''https://www.tf1.fr/stream/'' @ [20013, 233])
     = Some \<lparr>live = None, stream = Some [20013, 233], lci = None\<rparr>
   \<and> truthy_group (Some [20013, 233 :: int])
   \<and> (\<exists>channel channel_id.
        get_channel codepoints \<lparr>live = None, stream = Some [20013, 233], lci = None\<rparr>
          = Inr (channel, channel_id))"
proof -
  have h: "tf1_match codepoints (chars_of codepoints ''https://www.tf1.fr/stream/'' @ [20013, 233])
      = Some \<lparr>live = None, stream = Some [20013, 233], lci = None\<rparr>"
    by code_simp
  from matched_url_one_scheme [OF h] h show ?thesis by simp
qed

text \<open>
  C1. For every URL the pattern accepts, whatever the tables of \<^verbatim>\<open>\w\<close> and
  \<^verbatim>\<open>str.upper\<close>, \<^verbatim>\<open>_get_channel\<close> returns: for a live slug \<open>s\<close> the name \<open>s\<close>
  and the id \<open>L_\<close> followed by \<^verbatim>\<open>s.upper()\<close>; for the LCI alias the name \<open>LCI\<close> and
  the id \<open>L_LCI\<close>; for a stream slug \<open>s\<close> the name \<open>s\<close> and the id \<open>L_FAST_v2l-\<close>
  followed by \<open>s\<close> unchanged.
\<close>

theorem get_channel_of_matched_url:
  assumes "tf1_match T u = Some m"
  shows "(\<forall>s. live m = Some s \<longrightarrow> get_channel T m = Inr (s, chars_of T ''L_'' @ to_upper T s))
       \<and> (\<forall>a. lci m = Some a \<longrightarrow> get_channel T m = Inr (chars_of T ''LCI'', chars_of T ''L_LCI''))
       \<and> (\<forall>s. stream m = Some s \<longrightarrow> get_channel T m = Inr (s, chars_of T ''L_FAST_v2l-'' @ s))"
proof -
  from assms obtain g where g: "g \<noteq> []"
    and m: "m = \<lparr>live = Some g, stream = None, lci = None\<rparr>
      \<or> m = \<lparr>live = None, stream = Some g, lci = None\<rparr>
      \<or> m = \<lparr>live = None, stream = None, lci = Some g\<rparr>"
    by (blast dest: tf1_match_SomeD)
  from m show ?thesis
  proof (elim disjE)
    assume "m = \<lparr>live = Some g, stream = None, lci = None\<rparr>"
    with g show ?thesis by (simp add: truthy_group_def group_text_def get_channel_def Let_def)
  next
    assume "m = \<lparr>live = None, stream = Some g, lci = None\<rparr>"
    with g show ?thesis by (simp add: truthy_group_def group_text_def get_channel_def Let_def)
  next
    assume "m = \<lparr>live = None, stream = None, lci = Some g\<rparr>"
    with g show ?thesis by (simp add: truthy_group_def group_text_def get_channel_def Let_def)
  qed
qed

theorem get_channel_of_matched_url_witness:
  "get_channel byte_chars \<lparr>live = Some ''tf1'', stream = None, lci = None\<rparr>
     = Inr (''tf1'', ''L_TF1'')
   \<and> get_channel codepoints \<lparr>live = Some [116, 233, 108, 233, 223], stream = None, lci = None\<rparr>
     = Inr ([116, 233, 108, 233, 223], [76, 95, 84, 201, 76, 201, 83, 83])
   \<and> get_channel byte_chars \<lparr>live = None, stream = None, lci = Some ''lci''\<rparr>
     = Inr (''LCI'', ''L_LCI'')
   \<and> get_channel byte_chars \<lparr>live = None, stream = Some ''Sport1'', lci = None\<rparr>
       = Inr (''Sport1'', ''L_FAST_v2l-Sport1'')"
proof -
  have h1: "tf1_match byte_chars ''https://www.tf1.fr/tf1/direct''
      = Some \<lparr>live = Some ''tf1'', stream = None, lci = None\<rparr>"
    by code_simp
  have h2: "tf1_match codepoints
        (chars_of codepoints ''https://www.tf1.fr/'' @ [116, 233, 108, 233, 223]
           @ chars_of codepoints ''/direct'')
      = Some \<lparr>live = Some [116, 233, 108, 233, 223], stream = None, lci = None\<rparr>"
    by code_simp
  have h3: "tf1_match byte_chars ''https://lci.fr/direct''
      = Some \<lparr>live = None, stream = None, lci = Some ''lci''\<rparr>"
    by code_simp
  have h4: "tf1_match byte_chars ''https://www.tf1.fr/stream/Sport1''
      = Some \<lparr>live = None, stream = Some ''Sport1'', lci = None\<rparr>"
    by code_simp
  have up1: "chars_of byte_chars ''L_'' @ to_upper byte_chars ''tf1'' = ''L_TF1''"
    by code_simp
  have up2: "chars_of codepoints ''L_'' @ to_upper codepoints [116, 233, 108, 233, 223]
      = [76, 95, 84, 201, 76, 201, 83, 83]"
    by code_simp
  have l3: "chars_of byte_chars ''LCI'' = ''LCI''" "chars_of byte_chars ''L_LCI'' = ''L_LCI''"
    by (simp_all add: chars_of_def byte_chars_def)
  have l4: "chars_of byte_chars ''L_FAST_v2l-'' @ ''Sport1'' = ''L_FAST_v2l-Sport1''"
    by (simp add: chars_of_def byte_chars_def)
  from get_channel_of_matched_url [OF h1] get_channel_of_matched_url [OF h2]
    get_channel_of_matched_url [OF h3] get_channel_of_matched_url [OF h4] up1 up2 l3 l4
  show ?thesis by simp
qed

section \<open>The resolution flow\<close>

lemma sample_env_chars: "env_chars (sample_env u usr pwd script) = byte_chars"
  by (simp add: env_chars_def sample_env_def byte_chars_def)

lemma sample_channel:
  "self_get_channel (sample_env ''https://www.tf1.fr/tf1/direct'' usr pwd script)
     = Inr (''tf1'', ''L_TF1'')"
proof -
  have m: "tf1_match byte_chars ''https://www.tf1.fr/tf1/direct''
      = Some \<lparr>live = Some ''tf1'', stream = None, lci = None\<rparr>"
    by code_simp
  have c: "get_channel byte_chars \<lparr>live = Some ''tf1'', stream = None, lci = None\<rparr>
      = Inr (''tf1'', ''L_TF1'')"
    by code_simp
  have u: "url (sample_env ''https://www.tf1.fr/tf1/direct'' usr pwd script)
      = ''https://www.tf1.fr/tf1/direct''"
    by (simp add: sample_env_def)
  show ?thesis
    by (simp add: self_get_channel_def sample_env_chars u m c)
qed


lemma sample_env_sel:
  "url (sample_env u usr pwd script) = u"
  "username (sample_env u usr pwd script) = usr"
  "password (sample_env u usr pwd script) = pwd"
  "session_url (sample_env u usr pwd script) = Some ''https://www.tf1.fr/session''"
  "auth_url (sample_env u usr pwd script) = Some TF1_AUTH_URL"
  "server (sample_env u usr pwd script) = scripted script"
  "url_query (sample_env u usr pwd script) = (\<lambda>_. [])"
  "int_of_str (sample_env u usr pwd script) = (\<lambda>_. None)"
  "valid_url (sample_env u usr pwd script) = (\<lambda>s. take 4 s = ''http'')"
  "useragent_iphone (sample_env u usr pwd script) = ''iPhone''"
  by (simp_all add: sample_env_def)

lemma login_without_session_url:
  "session_url env = None \<Longrightarrow> login env p st = (Inl (AttributeError ''session_url''), st)"
  by (simp add: login_def)

lemma login_first_request:
  assumes "session_url env = Some su"
  shows "\<exists>rest. requests (snd (login env p st)) = requests st @ session_request su p # rest"
proof -
  have ac: "\<exists>rest. requests (snd (auth_check env r s)) = requests s @ rest" for r s
    by (auto simp: auth_check_def http_request_def Let_def split: sum.splits prod.splits)
  show ?thesis
  proof (cases "http env (requests st) (session_request su p)")
    case (Inl e)
    with assms show ?thesis by (simp add: login_def http_request_def)
  next
    case (Inr r)
    let ?st1 = "st\<lparr>requests := requests st @ [session_request su p]\<rparr>"
    obtain res st2 where a: "auth_check env r ?st1 = (res, st2)"
      by (cases "auth_check env r ?st1")
    from ac [of r ?st1] a obtain rest
      where st2: "requests st2 = requests st @ session_request su p # rest"
      by auto
    show ?thesis
    proof (cases res)
      case (Inl e)
      with assms Inr a st2 show ?thesis by (simp add: login_def http_request_def)
    next
      case ok: (Inr b)
      show ?thesis
      proof (cases b)
        case True
        with assms Inr a st2 ok show ?thesis
          by (simp add: login_def http_request_def log_msg_def)
      next
        case False
        show ?thesis
        proof (cases "auth_url env")
          case None
          with assms Inr a st2 ok False show ?thesis
            by (simp add: login_def http_request_def)
        next
          case (Some au)
          let ?st3 = "st2\<lparr>requests := requests st2 @ [login_request env au r]\<rparr>"
          show ?thesis
          proof (cases "http env (requests st2) (login_request env au r)")
            case (Inl e)
            with assms Inr a st2 ok False Some show ?thesis
              by (simp add: login_def http_request_def)
          next
            case r2: (Inr res2)
            from ac [of res2 ?st3] st2 obtain rest2
              where "requests (snd (auth_check env res2 ?st3))
                = requests st @ session_request su p # rest2"
              by auto
            with assms Inr a ok False Some r2 show ?thesis
              by (simp add: login_def http_request_def)
          qed
        qed
      qed
    qed
  qed
qed

text \<open>
  C2. A resolution that reaches authentication issues, as its first HTTP request, a
  GET to the session endpoint with the target URL as \<open>ptrt\<close>. The class body binds
  no \<^verbatim>\<open>session_url\<close>: on an instance whose base class provides none either,
  \<^verbatim>\<open>login\<close> raises \<^verbatim>\<open>AttributeError\<close> on its first statement and the
  resolution ends with no request issued at all, whatever the session would answer.
\<close>

theorem session_url_unbound_no_request:
  "get_streams (bare_env ''https://www.tf1.fr/tf1/direct'' (Some ''user'') (Some ''secret'')
       [json_response 200 assertion_body, json_response 200 token_body]) init_state
     = (Inl (AttributeError ''session_url''), init_state)
   \<and> requests init_state = []"
  by (simp add: get_streams_def truthy_group_def bare_env_def sample_env_sel
      login_without_session_url init_state_def)

text \<open>
  C6 (as the code has it). If the username option is absent or empty, the resolution
  logs the missing-credentials message, returns no streams and issues no HTTP request.
  The password is not looked at before the login POST.
\<close>

theorem missing_username_no_request:
  assumes "\<not> truthy_group (username env)"
  shows "get_streams env st = (Inr NoStreams, log_msg Error missing_credentials_msg st)
       \<and> requests (snd (get_streams env st)) = requests st"
  using assms by (simp add: get_streams_def log_msg_def)

theorem missing_username_no_request_witness:
  "\<not> truthy_group (username (sample_env ''https://www.tf1.fr/tf1/direct'' None (Some ''secret'') []))
   \<and> fst (get_streams (sample_env ''https://www.tf1.fr/tf1/direct'' None (Some ''secret'') [])
        init_state) = Inr NoStreams
   \<and> requests (snd (get_streams (sample_env ''https://www.tf1.fr/tf1/direct'' None (Some ''secret'') [])
        init_state)) = []"
proof -
  have h: "\<not> truthy_group (username (sample_env ''https://www.tf1.fr/tf1/direct'' None (Some ''secret'') []))"
    by (simp add: sample_env_sel truthy_group_def)
  from missing_username_no_request [OF h, of init_state] h show ?thesis
    by (simp add: init_state_def log_msg_def)
qed

theorem missing_password_counterexample:
  "password (sample_env ''https://www.tf1.fr/tf1/direct'' (Some ''user'') None
       [json_response 302 PNone, json_response 401 PNone]) = None
   \<and> requests (snd (get_streams (sample_env ''https://www.tf1.fr/tf1/direct'' (Some ''user'') None
       [json_response 302 PNone, json_response 401 PNone]) init_state))
     = [session_request ''https://www.tf1.fr/session'' ''https://www.tf1.fr/tf1/direct'',
        \<lparr>req_method = POST, req_url = TF1_AUTH_URL, req_params = QueryString [],
         req_data = [(''loginID'', PStr ''user''), (''password'', PNone),
                     (''APIKey'', PStr gigya_api_key)],
         req_headers = [(''Referer'', ''https://www.tf1.fr/tf1/direct'')]\<rparr>]
   \<and> logged (snd (get_streams (sample_env ''https://www.tf1.fr/tf1/direct'' (Some ''user'') None
       [json_response 302 PNone, json_response 401 PNone]) init_state))
     = []"
  by (simp add: get_streams_def login_def auth_check_def http_request_def scripted_def http_def
      sample_env_sel json_response_def init_state_def truthy_group_def log_msg_def
      login_request_def option_val_def session_request_def)

text \<open>
  C4. If the session GET returns status 200 and its body holds the assertion
  (\<open>userSignature\<close>, \<open>UID\<close> and a \<open>timestamp\<close> that \<^verbatim>\<open>int\<close> accepts), the second
  request of the resolution is the token POST, built from that assertion, and the only
  request that may follow is the media-info GET: the login POST is not issued.
\<close>

theorem authenticated_session_skips_login:
  assumes "truthy_group (username env)"
    and "session_url env = Some su"
    and "http env (requests st) (session_request su (url env)) = Inr r"
    and "status_code r = 200"
    and "assertion_field r ''userSignature'' = Inr sg"
    and "assertion_field r ''UID'' = Inr uid"
    and "assertion_timestamp env r = Inr ts"
  shows "\<exists>rest. requests (snd (get_streams env st))
           = requests st @ [session_request su (url env),
               \<lparr>req_method = POST, req_url = GIGYA_TOKEN_URL, req_params = NoQuery,
                req_data = [(''uid'', uid), (''signature'', sg), (''timestamp'', PInt ts),
                            (''consentIds'', consent_ids)],
                req_headers = [(''Referer'', url env)]\<rparr>] @ rest
         \<and> (rest = [] \<or> (\<exists>channel_id tok. rest = [media_request env channel_id tok]))"
  using assms
  by (auto simp: get_streams_def login_def auth_check_def http_request_def token_request_def
      api_call_def log_msg_def Let_def split: sum.splits prod.splits)

theorem authenticated_session_skips_login_witness:
  "requests (snd (get_streams (sample_env ''https://www.tf1.fr/tf1/direct'' (Some ''user'') (Some ''secret'')
       [json_response 200 assertion_body, json_response 200 token_body]) init_state))
   = [session_request ''https://www.tf1.fr/session'' ''https://www.tf1.fr/tf1/direct'',
      \<lparr>req_method = POST, req_url = GIGYA_TOKEN_URL, req_params = NoQuery,
       req_data = [(''uid'', PStr ''uid''), (''signature'', PStr ''sig''),
                   (''timestamp'', PInt 1700000000), (''consentIds'', consent_ids)],
       req_headers = [(''Referer'', ''https://www.tf1.fr/tf1/direct'')]\<rparr>,
      media_request (sample_env ''https://www.tf1.fr/tf1/direct'' (Some ''user'') (Some ''secret'')
       [json_response 200 assertion_body, json_response 200 token_body]) ''L_TF1'' ''tok'']"
proof -
  let ?env = "sample_env ''https://www.tf1.fr/tf1/direct'' (Some ''user'') (Some ''secret'')
       [json_response 200 assertion_body, json_response 200 token_body]"
  let ?r = "\<lparr>status_code = 200, res_url = [], body_json = Some assertion_body\<rparr>"
  have h1: "truthy_group (username ?env)"
    by (simp add: sample_env_sel truthy_group_def)
  have h2: "session_url ?env = Some ''https://www.tf1.fr/session''"
    by (simp add: sample_env_sel)
  have h3: "http ?env (requests init_state)
      (session_request ''https://www.tf1.fr/session'' (url ?env)) = Inr ?r"
    by (simp add: sample_env_sel scripted_def http_def init_state_def json_response_def)
  have h4: "status_code ?r = 200"
    by simp
  have h5: "assertion_field ?r ''userSignature'' = Inr (PStr ''sig'')"
    by (simp add: assertion_field_def res_json_def py_subscript_def assertion_body_def)
  have h6: "assertion_field ?r ''UID'' = Inr (PStr ''uid'')"
    by (simp add: assertion_field_def res_json_def py_subscript_def assertion_body_def)
  have h7: "assertion_timestamp ?env ?r = Inr 1700000000"
    by (simp add: assertion_timestamp_def assertion_field_def res_json_def py_subscript_def
        assertion_body_def py_int_def)
  have run: "requests (snd (get_streams ?env init_state))
      = [session_request ''https://www.tf1.fr/session'' ''https://www.tf1.fr/tf1/direct'',
         token_request ?env
           (init_state\<lparr>user_signature := PStr ''sig'', user_uid := PStr ''uid'',
                        user_timestamp := PInt 1700000000\<rparr>) consent_ids,
         media_request ?env ''L_TF1'' ''tok'']"
    by (simp add: get_streams_def login_def auth_check_def http_request_def
        assertion_timestamp_def assertion_field_def res_json_def py_subscript_def
        assertion_body_def py_int_def sample_channel token_request_def api_call_def token_schema_def token_body_def
        is_int_def media_schema_def group_text_def
        scripted_def http_def sample_env_sel json_response_def init_state_def truthy_group_def
        log_msg_def Let_def)
  from authenticated_session_skips_login [OF h1 h2 h3 h4 h5 h6 h7] run show ?thesis
    by (simp add: sample_env_sel token_request_def init_state_def)
qed

lemma returned_login_not_200_reported:
  assumes "truthy_group (username env)"
    and "session_url env = Some su"
    and "auth_url env = Some au"
    and "http env (requests st) (session_request su (url env)) = Inr r1"
    and "status_code r1 \<noteq> 200"
    and "http env (requests st @ [session_request su (url env)]) (login_request env au r1) = Inr r2"
    and "status_code r2 \<noteq> 200"
  shows "get_streams env st
      = (Inr NoStreams,
         st\<lparr>requests := requests st @ [session_request su (url env), login_request env au r1],
            logged := logged st @ [(Error, not_authenticated_msg)]\<rparr>)"
  using assms
  by (simp add: get_streams_def login_def auth_check_def http_request_def log_msg_def)

lemma login_error_status_raises:
  assumes "truthy_group (username env)"
    and "session_url env = Some su"
    and "auth_url env = Some au"
    and "http env (requests st) (session_request su (url env)) = Inr r1"
    and "status_code r1 \<noteq> 200"
    and "server env (requests st @ [session_request su (url env)]) (login_request env au r1) = Inr r2"
    and "400 \<le> status_code r2" and "status_code r2 < 600"
  shows "get_streams env st
      = (Inl http_error,
         st\<lparr>requests := requests st @ [session_request su (url env), login_request env au r1]\<rparr>)"
proof -
  from assms(6-8)
  have "http env (requests st @ [session_request su (url env)]) (login_request env au r1)
      = Inl http_error"
    by (simp add: http_def)
  with assms(1-5) show ?thesis
    by (simp add: get_streams_def login_def auth_check_def http_request_def)
qed

text \<open>
  C5. If the login POST is answered with a status other than 200, the resolution is
  to report "Could not authenticate, check your username and password." and to issue
  no media-info GET. For an answer with a 4xx or 5xx status the HTTP session raises
  before \<^verbatim>\<open>auth_check\<close> sees the response: with a session GET answered 302 and a
  login POST answered 401, \<^verbatim>\<open>_get_streams\<close> ends with that exception after the two
  requests and logs nothing.
\<close>

theorem login_answered_401_raises:
  "get_streams (sample_env ''https://www.tf1.fr/tf1/direct'' (Some ''user'') (Some ''wrong'')
       [json_response 302 PNone, json_response 401 PNone]) init_state
   = (Inl http_error,
      init_state\<lparr>requests :=
         [session_request ''https://www.tf1.fr/session'' ''https://www.tf1.fr/tf1/direct'',
          \<lparr>req_method = POST, req_url = TF1_AUTH_URL, req_params = QueryString [],
           req_data = [(''loginID'', PStr ''user''), (''password'', PStr ''wrong''),
                       (''APIKey'', PStr gigya_api_key)],
           req_headers = [(''Referer'', ''https://www.tf1.fr/tf1/direct'')]\<rparr>]\<rparr>)
   \<and> logged init_state = []"
proof -
  let ?env = "sample_env ''https://www.tf1.fr/tf1/direct'' (Some ''user'') (Some ''wrong'')
       [json_response 302 PNone, json_response 401 PNone]"
  let ?r1 = "\<lparr>status_code = 302, res_url = [], body_json = Some PNone\<rparr>"
  let ?r2 = "\<lparr>status_code = 401, res_url = [], body_json = Some PNone\<rparr>"
  have h1: "truthy_group (username ?env)"
    by (simp add: sample_env_sel truthy_group_def)
  have h2: "session_url ?env = Some ''https://www.tf1.fr/session''"
    by (simp add: sample_env_sel)
  have h3: "auth_url ?env = Some TF1_AUTH_URL"
    by (simp add: sample_env_sel)
  have h4: "http ?env (requests init_state)
      (session_request ''https://www.tf1.fr/session'' (url ?env)) = Inr ?r1"
    by (simp add: sample_env_sel scripted_def http_def init_state_def json_response_def)
  have h5: "status_code ?r1 \<noteq> 200"
    by simp
  have h6: "server ?env (requests init_state @ [session_request ''https://www.tf1.fr/session'' (url ?env)])
      (login_request ?env TF1_AUTH_URL ?r1) = Inr ?r2"
    by (simp add: sample_env_sel scripted_def init_state_def json_response_def)
  have h7: "400 \<le> status_code ?r2" "status_code ?r2 < 600"
    by simp_all
  from login_error_status_raises [OF h1 h2 h3 h4 h5 h6 h7] show ?thesis
    by (simp add: sample_env_sel login_request_def option_val_def init_state_def)
qed

lemma assertion_field_cases:
  "assertion_field r k = Inl JSONDecodeError \<or> assertion_field r k = Inl TypeError
     \<or> assertion_field r k = Inl (KeyError k) \<or> (\<exists>v. assertion_field r k = Inr v)"
  by (simp add: assertion_field_def res_json_def py_subscript_def
      split: option.splits pyval.splits)

lemma assertion_field_absent:
  assumes "body_json r = None \<or> (\<forall>d. body_json r = Some (PDict d) \<longrightarrow> map_of d k = None)"
  shows "\<exists>e. assertion_field r k = Inl e"
  using assms
  by (auto simp: assertion_field_def res_json_def py_subscript_def
      split: option.splits pyval.splits)

lemma auth_check_no_signature:
  "status_code res = 200 \<Longrightarrow> assertion_field res ''userSignature'' = Inl e
     \<Longrightarrow> auth_check env res st = (Inl e, st)"
  by (simp add: auth_check_def)

lemma auth_check_no_uid:
  "status_code res = 200 \<Longrightarrow> assertion_field res ''userSignature'' = Inr sg
     \<Longrightarrow> assertion_field res ''UID'' = Inl e
     \<Longrightarrow> auth_check env res st = (Inl e, st\<lparr>user_signature := sg\<rparr>)"
  by (simp add: auth_check_def)

lemma auth_check_no_timestamp:
  "status_code res = 200 \<Longrightarrow> assertion_field res ''userSignature'' = Inr sg
     \<Longrightarrow> assertion_field res ''UID'' = Inr uid
     \<Longrightarrow> assertion_field res ''timestamp'' = Inl e
     \<Longrightarrow> auth_check env res st = (Inl e, st\<lparr>user_signature := sg, user_uid := uid\<rparr>)"
  by (simp add: auth_check_def assertion_timestamp_def)

lemma auth_check_assertion_error:
  assumes "status_code res = 200"
    and "(\<exists>e. assertion_field res ''userSignature'' = Inl e)
       \<or> (\<exists>e. assertion_field res ''UID'' = Inl e)
       \<or> (\<exists>e. assertion_field res ''timestamp'' = Inl e)"
  shows "\<exists>e st'. auth_check env res st = (Inl e, st') \<and> requests st' = requests st
           \<and> e \<in> set [JSONDecodeError, TypeError, KeyError ''userSignature'',
                        KeyError ''UID'', KeyError ''timestamp'']"
proof (cases "assertion_field res ''userSignature''")
  case (Inl e)
  with assertion_field_cases [of res "''userSignature''"]
  have "e \<in> set [JSONDecodeError, TypeError, KeyError ''userSignature'',
                        KeyError ''UID'', KeyError ''timestamp'']"
    by auto
  with auth_check_no_signature [OF assms(1) Inl, of env st] show ?thesis
    by simp
next
  case sg: (Inr sg)
  show ?thesis
  proof (cases "assertion_field res ''UID''")
    case (Inl e)
    with assertion_field_cases [of res "''UID''"]
    have "e \<in> set [JSONDecodeError, TypeError, KeyError ''userSignature'',
                        KeyError ''UID'', KeyError ''timestamp'']"
      by auto
    with auth_check_no_uid [OF assms(1) sg Inl, of env st] show ?thesis
      by simp
  next
    case uid: (Inr uid)
    from assms(2) sg uid obtain e where ts: "assertion_field res ''timestamp'' = Inl e"
      by auto
    with assertion_field_cases [of res "''timestamp''"]
    have "e \<in> set [JSONDecodeError, TypeError, KeyError ''userSignature'',
                        KeyError ''UID'', KeyError ''timestamp'']"
      by auto
    with auth_check_no_timestamp [OF assms(1) sg uid ts, of env st] show ?thesis
      by simp
  qed
qed

text \<open>
  C10. If the session GET returns status 200 and its body is not JSON, or is JSON
  that lacks one of \<open>userSignature\<close>, \<open>UID\<close>, \<open>timestamp\<close>, then \<^verbatim>\<open>auth_check\<close>
  raises (\<^verbatim>\<open>JSONDecodeError\<close>, \<^verbatim>\<open>KeyError\<close>, or \<^verbatim>\<open>TypeError\<close> for JSON that is
  not an object), the exception leaves \<^verbatim>\<open>_get_streams\<close>, and the session GET is
  the only request issued: there is no fall-back to the login POST.
\<close>

theorem session_200_without_assertion_raises:
  assumes "truthy_group (username env)"
    and "session_url env = Some su"
    and "http env (requests st) (session_request su (url env)) = Inr r"
    and "status_code r = 200"
    and "body_json r = None
       \<or> (\<exists>k \<in> set [''userSignature'', ''UID'', ''timestamp''].
             \<forall>d. body_json r = Some (PDict d) \<longrightarrow> map_of d k = None)"
  shows "(\<exists>e \<in> set [JSONDecodeError, TypeError, KeyError ''userSignature'',
                     KeyError ''UID'', KeyError ''timestamp''].
            fst (get_streams env st) = Inl e)
       \<and> requests (snd (get_streams env st)) = requests st @ [session_request su (url env)]"
proof -
  let ?st1 = "st\<lparr>requests := requests st @ [session_request su (url env)]\<rparr>"
  from assms(5) obtain k where k: "k \<in> set [''userSignature'', ''UID'', ''timestamp'']"
    and absent: "body_json r = None \<or> (\<forall>d. body_json r = Some (PDict d) \<longrightarrow> map_of d k = None)"
    by auto
  from assertion_field_absent [OF absent] k
  have bad: "(\<exists>e. assertion_field r ''userSignature'' = Inl e)
      \<or> (\<exists>e. assertion_field r ''UID'' = Inl e)
      \<or> (\<exists>e. assertion_field r ''timestamp'' = Inl e)"
    by auto
  from auth_check_assertion_error [OF assms(4) bad, of env ?st1]
  obtain e st2 where a: "auth_check env r ?st1 = (Inl e, st2)"
    and rq: "requests st2 = requests ?st1"
    and e: "e \<in> set [JSONDecodeError, TypeError, KeyError ''userSignature'',
                        KeyError ''UID'', KeyError ''timestamp'']"
    by blast
  from assms(1-3) a have "get_streams env st = (Inl e, st2)"
    by (simp add: get_streams_def login_def http_request_def)
  with rq e show ?thesis by auto
qed

theorem session_200_without_assertion_raises_witness:
  "fst (get_streams (sample_env ''https://www.tf1.fr/tf1/direct'' (Some ''user'') (Some ''secret'')
       [json_response 200 (PDict [(''UID'', PStr ''uid'')]), json_response 200 token_body])
       init_state) = Inl (KeyError ''userSignature'')
   \<and> requests (snd (get_streams (sample_env ''https://www.tf1.fr/tf1/direct'' (Some ''user'') (Some ''secret'')
       [json_response 200 (PDict [(''UID'', PStr ''uid'')]), json_response 200 token_body])
       init_state))
     = [session_request ''https://www.tf1.fr/session'' ''https://www.tf1.fr/tf1/direct'']"
proof -
  let ?env = "sample_env ''https://www.tf1.fr/tf1/direct'' (Some ''user'') (Some ''secret'')
       [json_response 200 (PDict [(''UID'', PStr ''uid'')]), json_response 200 token_body]"
  let ?r = "\<lparr>status_code = 200, res_url = [], body_json = Some (PDict [(''UID'', PStr ''uid'')])\<rparr>"
  have h1: "truthy_group (username ?env)"
    by (simp add: sample_env_sel truthy_group_def)
  have h2: "session_url ?env = Some ''https://www.tf1.fr/session''"
    by (simp add: sample_env_sel)
  have h3: "http ?env (requests init_state)
      (session_request ''https://www.tf1.fr/session'' (url ?env)) = Inr ?r"
    by (simp add: sample_env_sel scripted_def http_def init_state_def json_response_def)
  have h4: "status_code ?r = 200"
    by simp
  have h5: "body_json ?r = None
       \<or> (\<exists>k \<in> set [''userSignature'', ''UID'', ''timestamp''].
             \<forall>d. body_json ?r = Some (PDict d) \<longrightarrow> map_of d k = None)"
    by simp
  have run: "fst (get_streams ?env init_state) = Inl (KeyError ''userSignature'')"
    by (simp add: get_streams_def login_def auth_check_def http_request_def
        assertion_field_def res_json_def py_subscript_def
        scripted_def http_def sample_env_sel json_response_def init_state_def truthy_group_def)
  from session_200_without_assertion_raises [OF h1 h2 h3 h4 h5] run show ?thesis
    by (simp add: sample_env_sel init_state_def)
qed

text \<open>
  C7. The token response must hold all four of \<open>token\<close>, \<open>refresh_token\<close>, \<open>ttl\<close>
  and \<open>type\<close>: a JSON object that lacks one of them (\<open>ttl\<close> for one) fails the
  schema, and \<^verbatim>\<open>auth_check\<close> raises the validation error, leaving \<open>user_token\<close>
  as it was; no field gets a default.
\<close>

theorem token_reply_missing_field_rejected:
  assumes "status_code res = 200"
    and "assertion_field res ''userSignature'' = Inr sg"
    and "assertion_field res ''UID'' = Inr uid"
    and "assertion_timestamp env res = Inr ts"
    and "http env (requests st)
           (token_request env (st\<lparr>user_signature := sg, user_uid := uid,
              user_timestamp := PInt ts\<rparr>) consent_ids) = Inr r"
    and "body_json r = Some (PDict d)"
    and "k \<in> set [''token'', ''refresh_token'', ''ttl'', ''type'']"
    and "map_of d k = None"
  shows "token_schema (body_json r) = Inl validation_error
       \<and> fst (auth_check env res st) = Inl validation_error
       \<and> user_token (snd (auth_check env res st)) = user_token st"
proof -
  from assms(6-8) have s: "token_schema (body_json r) = Inl validation_error"
    by (auto simp: token_schema_def split: option.splits pyval.splits)
  from assms(1-5) s show ?thesis
    by (simp add: auth_check_def http_request_def Let_def)
qed

theorem token_reply_missing_field_rejected_witness:
  "token_schema (Some (PDict [(''token'', PStr ''tok''), (''refresh_token'', PStr ''ref''),
       (''type'', PStr ''Bearer'')])) = Inl validation_error
   \<and> fst (auth_check (sample_env ''https://www.tf1.fr/tf1/direct'' (Some ''user'') (Some ''secret'')
         [json_response 200 (PDict [(''token'', PStr ''tok''), (''refresh_token'', PStr ''ref''),
            (''type'', PStr ''Bearer'')])])
         \<lparr>status_code = 200, res_url = [], body_json = Some assertion_body\<rparr> init_state)
       = Inl validation_error"
proof -
  let ?d = "[(''token'', PStr ''tok''), (''refresh_token'', PStr ''ref''), (''type'', PStr ''Bearer'')]"
  let ?env = "sample_env ''https://www.tf1.fr/tf1/direct'' (Some ''user'') (Some ''secret'')
         [json_response 200 (PDict ?d)]"
  let ?res = "\<lparr>status_code = 200, res_url = [], body_json = Some assertion_body\<rparr>"
  let ?r = "\<lparr>status_code = 200, res_url = [], body_json = Some (PDict ?d)\<rparr>"
  have h1: "status_code ?res = 200"
    by simp
  have h2: "assertion_field ?res ''userSignature'' = Inr (PStr ''sig'')"
    by (simp add: assertion_field_def res_json_def py_subscript_def assertion_body_def)
  have h3: "assertion_field ?res ''UID'' = Inr (PStr ''uid'')"
    by (simp add: assertion_field_def res_json_def py_subscript_def assertion_body_def)
  have h4: "assertion_timestamp ?env ?res = Inr 1700000000"
    by (simp add: assertion_timestamp_def assertion_field_def res_json_def py_subscript_def
        assertion_body_def py_int_def)
  have h5: "http ?env (requests init_state)
           (token_request ?env (init_state\<lparr>user_signature := PStr ''sig'', user_uid := PStr ''uid'',
              user_timestamp := PInt 1700000000\<rparr>) consent_ids) = Inr ?r"
    by (simp add: sample_env_sel scripted_def http_def init_state_def json_response_def)
  have h6: "body_json ?r = Some (PDict ?d)"
    by simp
  have h7: "''ttl'' \<in> set [''token'', ''refresh_token'', ''ttl'', ''type'']"
    by simp
  have h8: "map_of ?d ''ttl'' = None"
    by simp
  from token_reply_missing_field_rejected [OF h1 h2 h3 h4 h5 h6 h7 h8] show ?thesis
    by simp
qed

text \<open>
  C8. The \<open>consentIds\<close> entry of the token POST is the list of consent identifiers.
  In the code the assignment of \<^verbatim>\<open>consent_ids\<close> ends with a comma, so the value sent
  is a tuple of one element that holds the list, not the list.
\<close>

theorem consent_ids_sent_as_tuple:
  "map_of (req_data (requests (snd (get_streams
       (sample_env ''https://www.tf1.fr/tf1/direct'' (Some ''user'') (Some ''secret'')
          [json_response 200 assertion_body, json_response 200 token_body]) init_state)) ! 1))
     ''consentIds''
   = Some (PTuple [PList (map PStr consent_id_list)])
   \<and> PTuple [PList (map PStr consent_id_list)] \<noteq> PList (map PStr consent_id_list)"
proof -
  let ?env = "sample_env ''https://www.tf1.fr/tf1/direct'' (Some ''user'') (Some ''secret'')
       [json_response 200 assertion_body, json_response 200 token_body]"
  have "requests (snd (get_streams ?env init_state)) ! 1
      = token_request ?env
           (init_state\<lparr>user_signature := PStr ''sig'', user_uid := PStr ''uid'',
                        user_timestamp := PInt 1700000000\<rparr>) consent_ids"
    by (simp add: get_streams_def login_def auth_check_def http_request_def
        assertion_timestamp_def assertion_field_def res_json_def py_subscript_def
        assertion_body_def py_int_def sample_channel token_request_def
        api_call_def token_schema_def token_body_def
        is_int_def media_schema_def group_text_def
        scripted_def http_def sample_env_sel json_response_def init_state_def truthy_group_def
        log_msg_def Let_def)
  then show ?thesis
    by (simp add: token_request_def consent_ids_def)
qed




end
